theory Spec2Isabelle
  imports Main
begin

section \<open>Values, text and frames\<close>

text \<open>
  The loader \<^verbatim>\<open>load_ecom_data.py\<close> reads five CSV files with pandas, normalises one
  column and appends the frames to an SQLite database. This theory embeds it function by
  function. The two libraries are modelled at the level their documentation gives:
  a frame is an ordered list of named columns, a database is a list of tables with
  their declared constraints.

  A cell of a frame is a Python object: a \<^verbatim>\<open>str\<close>, an \<^verbatim>\<open>int\<close>, a \<^verbatim>\<open>bool\<close>, a
  \<^verbatim>\<open>float\<close> or the missing value \<^verbatim>\<open>NaN\<close>. A float other than \<^verbatim>\<open>NaN\<close> is carried
  by its \<^verbatim>\<open>repr\<close> (which identifies it): the loader never computes with one. Text is
  ASCII: \<open>py_upper\<close> and \<open>py_isspace\<close> are Python's \<^verbatim>\<open>str.upper\<close> and
  \<^verbatim>\<open>str.isspace\<close> on the code points below 128.
\<close>

datatype cell = CStr string | CInt int | CBool bool | CFloat string | CNaN

type_synonym series = "cell list"

type_synonym dataframe = "(string \<times> series) list"

datatype integrity =
    NotNullFailed string string
  | CheckFailed string
  | UniqueFailed string string
  | DatatypeMismatch
  | ForeignKeyFailed

datatype error =
    FileNotFoundError string
  | KeyError string
  | AttributeError string
  | OperationalError string
  | IntegrityError integrity

definition digit_char :: "nat \<Rightarrow> char" where
  "digit_char d = char_of (48 + d)"

function str_nat :: "nat \<Rightarrow> string" where
  "str_nat n = (if n < 10 then [digit_char n] else str_nat (n div 10) @ [digit_char (n mod 10)])"
  by pat_completeness auto
termination
  by (relation "measure id") auto

declare str_nat.simps [simp del]

definition str_int :: "int \<Rightarrow> string" where
  "str_int i = (if i < 0 then CHR ''-'' # str_nat (nat (- i)) else str_nat (nat i))"

text \<open>\<^verbatim>\<open>str(v)\<close>, which is what \<^verbatim>\<open>Series.astype(str)\<close> applies to every element.\<close>

fun py_str :: "cell \<Rightarrow> string" where
  "py_str (CStr s) = s"
| "py_str (CInt i) = str_int i"
| "py_str (CBool b) = (if b then ''True'' else ''False'')"
| "py_str (CFloat r) = r"
| "py_str CNaN = ''nan''"

definition py_isspace :: "char \<Rightarrow> bool" where
  "py_isspace c = (let n = (of_char c :: nat) in (9 \<le> n \<and> n \<le> 13) \<or> (28 \<le> n \<and> n \<le> 32))"

definition py_strip :: "string \<Rightarrow> string" where
  "py_strip s = rev (dropWhile py_isspace (rev (dropWhile py_isspace s)))"

definition upper_char :: "char \<Rightarrow> char" where
  "upper_char c = (let n = (of_char c :: nat) in if 97 \<le> n \<and> n \<le> 122 then char_of (n - 32) else c)"

definition py_upper :: "string \<Rightarrow> string" where
  "py_upper s = map upper_char s"

subsection \<open>The Series methods of the normaliser\<close>

definition astype_str :: "series \<Rightarrow> string list" where
  "astype_str s = map py_str s"

definition str_strip :: "string list \<Rightarrow> string list" where
  "str_strip s = map py_strip s"

definition str_upper :: "string list \<Rightarrow> string list" where
  "str_upper s = map py_upper s"

text \<open>\<^verbatim>\<open>Series.map(dict)\<close>: a value that is not a key of the dictionary becomes missing.\<close>

definition map_dict :: "(string \<times> int) list \<Rightarrow> string list \<Rightarrow> int option list" where
  "map_dict d s = map (map_of d) s"

definition fillna :: "int \<Rightarrow> int option list \<Rightarrow> int list" where
  "fillna v s = map (\<lambda>x. case x of None \<Rightarrow> v | Some i \<Rightarrow> i) s"

definition astype_int :: "int list \<Rightarrow> series" where
  "astype_int s = map CInt s"

subsection \<open>Frames as objects\<close>

text \<open>
  A frame is a mutable object and \<^verbatim>\<open>df[column] = ...\<close> updates it in place, so frames
  live in a store: a reference is an index into the list of the objects allocated so far
  (a reference that a program holds is always below the length of that list).
  The rows of a frame are counted on its first column; every column of a frame that
  pandas builds has that length.
\<close>

type_synonym ref = nat

type_synonym heap = "dataframe list"

definition columns :: "dataframe \<Rightarrow> string list" where
  "columns df = map fst df"

definition nrows :: "dataframe \<Rightarrow> nat" where
  "nrows df = (case df of [] \<Rightarrow> 0 | (c, s) # rest \<Rightarrow> length s)"

text \<open>
  \<^verbatim>\<open>df[column]\<close> followed by the \<^verbatim>\<open>.str\<close> accessor: a label that is absent raises
  \<^verbatim>\<open>KeyError\<close>; a label carried by several columns selects a frame, which has no
  \<^verbatim>\<open>.str\<close>.
\<close>

definition getitem :: "dataframe \<Rightarrow> string \<Rightarrow> error + series" where
  "getitem df column =
     (case filter (\<lambda>p. fst p = column) df of
        [] \<Rightarrow> Inl (KeyError column)
      | [p] \<Rightarrow> Inr (snd p)
      | p # q # rest \<Rightarrow> Inl (AttributeError ''str''))"

text \<open>\<^verbatim>\<open>df[column] = s\<close> for a label that is present: the column keeps its position.\<close>

fun set_column :: "dataframe \<Rightarrow> string \<Rightarrow> series \<Rightarrow> dataframe" where
  "set_column [] column s = [(column, s)]"
| "set_column ((c, old) # rest) column s =
     (if c = column then (c, s) # rest else (c, old) # set_column rest column s)"

definition copy :: "heap \<Rightarrow> ref \<Rightarrow> ref \<times> heap" where
  "copy h r = (length h, h @ [h ! r])"

definition setitem :: "heap \<Rightarrow> ref \<Rightarrow> string \<Rightarrow> series \<Rightarrow> heap" where
  "setitem h r column s = h[r := set_column (h ! r) column s]"

subsection \<open>normalize_booleans\<close>

definition TRUE_FALSE :: "(string \<times> int) list" where
  "TRUE_FALSE = [(''TRUE'', 1), (''FALSE'', 0)]"

definition normalize_series :: "series \<Rightarrow> series" where
  "normalize_series s =
     astype_int (fillna 0 (map_dict TRUE_FALSE (str_upper (str_strip (astype_str s)))))"

definition normalize_booleans :: "heap \<Rightarrow> ref \<Rightarrow> string \<Rightarrow> (error + ref) \<times> heap" where
  "normalize_booleans h df column =
     (let (df', h1) = copy h df in
      case getitem (h1 ! df') column of
        Inl e \<Rightarrow> (Inl e, h1)
      | Inr s \<Rightarrow> (Inr df', setitem h1 df' column (normalize_series s)))"

section \<open>The CSV loader\<close>

text \<open>
  The file system under the data directory maps a path to the frame that
  \<^verbatim>\<open>pd.read_csv\<close> parses the file at that path to (the header gives the column labels,
  each data line one row, in file order); a path without an entry does not exist.
  \<open>csv_path\<close> is \<^verbatim>\<open>DATA_DIR / f"{name}.csv"\<close> for a name that is one path component,
  as the five table names are.
\<close>

type_synonym files = "(string \<times> dataframe) list"

definition DATA_DIR :: string where
  "DATA_DIR = ''data''"

definition csv_path :: "string \<Rightarrow> string" where
  "csv_path name = DATA_DIR @ ''/'' @ name @ ''.csv''"

definition read_csv :: "heap \<Rightarrow> dataframe \<Rightarrow> ref \<times> heap" where
  "read_csv h content = (length h, h @ [content])"

definition load_csv :: "files \<Rightarrow> heap \<Rightarrow> string \<Rightarrow> (error + ref) \<times> heap" where
  "load_csv fs h name =
     (let path = csv_path name in
      case map_of fs path of
        None \<Rightarrow> (Inl (FileNotFoundError (''Missing CSV: '' @ path)), h)
      | Some content \<Rightarrow>
          (let (df, h1) = read_csv h content in
           if name = ''products'' then normalize_booleans h1 df ''in_stock''
           else (Inr df, h1)))"

section \<open>The database\<close>

text \<open>
  A stored value has one of SQLite's storage classes. \<open>adapt\<close> is the conversion that
  \<^verbatim>\<open>DataFrame.to_sql\<close> and the \<^verbatim>\<open>sqlite3\<close> module apply to a cell: a missing value is
  bound as \<^verbatim>\<open>NULL\<close>, a \<^verbatim>\<open>bool\<close> as the integer 0 or 1. A value is stored as it
  is bound: the coercion of a value to the affinity of its column (the text \<^verbatim>\<open>'12'\<close>
  stored in an \<^verbatim>\<open>INTEGER\<close> column becomes the integer 12) is not part of the model.
\<close>

datatype sqlval = SNull | SInt int | SReal string | SText string

fun adapt :: "cell \<Rightarrow> sqlval" where
  "adapt (CStr s) = SText s"
| "adapt (CInt i) = SInt i"
| "adapt (CBool b) = SInt (if b then 1 else 0)"
| "adapt (CFloat r) = SReal r"
| "adapt CNaN = SNull"

datatype coltype = INTEGER | TEXT | REAL

record column_def =
  col_name :: string
  col_type :: coltype
  col_notnull :: bool

text \<open>
  What a \<^verbatim>\<open>CREATE TABLE\<close> statement of the loader declares: the columns in order, the
  primary-key column, the checks \<^verbatim>\<open>CHECK (c IN (...))\<close> and the foreign keys
  \<^verbatim>\<open>FOREIGN KEY (c) REFERENCES parent(pc)\<close> as triples \<open>(c, parent, pc)\<close>.
\<close>

record table_schema =
  tbl_columns :: "column_def list"
  tbl_primary_key :: "string option"
  tbl_checks :: "(string \<times> sqlval list) list"
  tbl_foreign_keys :: "(string \<times> string \<times> string) list"

record table =
  tbl_schema :: table_schema
  tbl_rows :: "sqlval list list"

type_synonym database = "(string \<times> table) list"

definition column_names :: "table_schema \<Rightarrow> string list" where
  "column_names sch = map col_name (tbl_columns sch)"

definition value_of :: "table_schema \<Rightarrow> sqlval list \<Rightarrow> string \<Rightarrow> sqlval" where
  "value_of sch row c = (case map_of (zip (column_names sch) row) c of None \<Rightarrow> SNull | Some v \<Rightarrow> v)"

definition column_values :: "table \<Rightarrow> string \<Rightarrow> sqlval list" where
  "column_values t c = map (\<lambda>row. value_of (tbl_schema t) row c) (tbl_rows t)"

subsection \<open>Inserting a row\<close>

text \<open>
  \<^verbatim>\<open>INSERT INTO t (c1, ..., cn) VALUES (?, ..., ?)\<close>: a column of the table that the
  statement does not name is \<^verbatim>\<open>NULL\<close>.
\<close>

definition complete_row :: "table_schema \<Rightarrow> (string \<times> sqlval) list \<Rightarrow> sqlval list" where
  "complete_row sch named =
     map (\<lambda>c. case map_of named c of None \<Rightarrow> SNull | Some v \<Rightarrow> v) (column_names sch)"

text \<open>
  A column declared \<^verbatim>\<open>INTEGER PRIMARY KEY\<close> is the table's rowid: a \<^verbatim>\<open>NULL\<close> there
  is replaced by one more than the largest rowid of the table, and a value that is not
  an integer is a datatype mismatch.
\<close>

definition rowid_column :: "table_schema \<Rightarrow> string option" where
  "rowid_column sch =
     (case tbl_primary_key sch of
        None \<Rightarrow> None
      | Some k \<Rightarrow>
          if list_ex (\<lambda>cd. col_name cd = k \<and> col_type cd = INTEGER) (tbl_columns sch)
          then Some k else None)"

fun rowid_of :: "sqlval \<Rightarrow> int" where
  "rowid_of (SInt i) = i"
| "rowid_of v = 0"

definition next_rowid :: "table \<Rightarrow> string \<Rightarrow> int" where
  "next_rowid t k =
     (case map rowid_of (column_values t k) of [] \<Rightarrow> 1 | i # rest \<Rightarrow> fold max rest i + 1)"

definition assign_rowid :: "table \<Rightarrow> sqlval list \<Rightarrow> sqlval list" where
  "assign_rowid t row =
     (case rowid_column (tbl_schema t) of
        None \<Rightarrow> row
      | Some k \<Rightarrow>
          map (\<lambda>(c, v). if c = k \<and> v = SNull then SInt (next_rowid t k) else v)
            (zip (column_names (tbl_schema t)) row))"

definition check_rowid :: "table_schema \<Rightarrow> sqlval list \<Rightarrow> error option" where
  "check_rowid sch row =
     (case rowid_column sch of
        None \<Rightarrow> None
      | Some k \<Rightarrow>
          (case value_of sch row k of
             SInt i \<Rightarrow> None
           | v \<Rightarrow> Some (IntegrityError DatatypeMismatch)))"

definition check_not_null :: "string \<Rightarrow> table_schema \<Rightarrow> sqlval list \<Rightarrow> error option" where
  "check_not_null name sch row =
     (case filter (\<lambda>cd. col_notnull cd \<and> value_of sch row (col_name cd) = SNull) (tbl_columns sch) of
        [] \<Rightarrow> None
      | cd # rest \<Rightarrow> Some (IntegrityError (NotNullFailed name (col_name cd))))"

definition check_checks :: "table_schema \<Rightarrow> sqlval list \<Rightarrow> error option" where
  "check_checks sch row =
     (case filter (\<lambda>(c, allowed). value_of sch row c \<noteq> SNull \<and> value_of sch row c \<notin> set allowed)
             (tbl_checks sch) of
        [] \<Rightarrow> None
      | (c, allowed) # rest \<Rightarrow> Some (IntegrityError (CheckFailed c)))"

definition check_unique :: "string \<Rightarrow> table \<Rightarrow> sqlval list \<Rightarrow> error option" where
  "check_unique name t row =
     (case tbl_primary_key (tbl_schema t) of
        None \<Rightarrow> None
      | Some k \<Rightarrow>
          if value_of (tbl_schema t) row k \<noteq> SNull \<and>
             value_of (tbl_schema t) row k \<in> set (column_values t k)
          then Some (IntegrityError (UniqueFailed name k)) else None)"

text \<open>
  A foreign key is checked only when enforcement is on for the connection, and a
  \<^verbatim>\<open>NULL\<close> child key references nothing. No table of the loader references itself, so
  the parent is looked up in the database as it is before the row is added.
\<close>

definition fk_violated :: "database \<Rightarrow> table_schema \<Rightarrow> sqlval list \<Rightarrow> string \<times> string \<times> string \<Rightarrow> error option" where
  "fk_violated db sch row fk =
     (case fk of (c, parent, pc) \<Rightarrow>
        if value_of sch row c = SNull then None
        else (case map_of db parent of
                None \<Rightarrow> Some (OperationalError (''no such table: main.'' @ parent))
              | Some p \<Rightarrow>
                  if value_of sch row c \<in> set (column_values p pc) then None
                  else Some (IntegrityError ForeignKeyFailed)))"

fun first_error :: "error option list \<Rightarrow> error option" where
  "first_error [] = None"
| "first_error (None # rest) = first_error rest"
| "first_error (Some e # rest) = Some e"

definition check_foreign_keys :: "bool \<Rightarrow> database \<Rightarrow> table_schema \<Rightarrow> sqlval list \<Rightarrow> error option" where
  "check_foreign_keys fk_on db sch row =
     (if fk_on then first_error (map (fk_violated db sch row) (tbl_foreign_keys sch)) else None)"

definition check_row :: "bool \<Rightarrow> database \<Rightarrow> string \<Rightarrow> table \<Rightarrow> sqlval list \<Rightarrow> error option" where
  "check_row fk_on db name t row =
     first_error
       [check_rowid (tbl_schema t) row,
        check_not_null name (tbl_schema t) row,
        check_checks (tbl_schema t) row,
        check_unique name t row,
        check_foreign_keys fk_on db (tbl_schema t) row]"

fun put_table :: "database \<Rightarrow> string \<Rightarrow> table \<Rightarrow> database" where
  "put_table [] name t = [(name, t)]"
| "put_table ((n, old) # rest) name t =
     (if n = name then (n, t) # rest else (n, old) # put_table rest name t)"

definition insert_row :: "bool \<Rightarrow> database \<Rightarrow> string \<Rightarrow> (string \<times> sqlval) list \<Rightarrow> error + database" where
  "insert_row fk_on db name named =
     (case map_of db name of
        None \<Rightarrow> Inl (OperationalError (''no such table: '' @ name))
      | Some t \<Rightarrow>
          (let row = assign_rowid t (complete_row (tbl_schema t) named) in
           case check_row fk_on db name t row of
             Some e \<Rightarrow> Inl e
           | None \<Rightarrow> Inr (put_table db name (t\<lparr>tbl_rows := tbl_rows t @ [row]\<rparr>))))"

text \<open>\<^verbatim>\<open>executemany\<close>: one statement per row, stopping at the first that fails.\<close>

fun insert_rows :: "bool \<Rightarrow> database \<Rightarrow> string \<Rightarrow> (string \<times> sqlval) list list \<Rightarrow> error + database" where
  "insert_rows fk_on db name [] = Inr db"
| "insert_rows fk_on db name (r # rs) =
     (case insert_row fk_on db name r of
        Inl e \<Rightarrow> Inl e
      | Inr db' \<Rightarrow> insert_rows fk_on db' name rs)"

subsection \<open>Connections and transactions\<close>

text \<open>
  A connection sees \<open>working\<close>; the file holds \<open>committed\<close>. The \<^verbatim>\<open>sqlite3\<close> module
  opens a transaction before an \<^verbatim>\<open>INSERT\<close> and not before a \<^verbatim>\<open>CREATE\<close>,
  \<^verbatim>\<open>DROP\<close> or \<^verbatim>\<open>PRAGMA\<close>, which outside a transaction take effect at once.
\<close>

record connection =
  committed :: database
  working :: database
  in_transaction :: bool
  foreign_keys :: bool

definition connect :: "database option \<Rightarrow> connection" where
  "connect f =
     (let db = (case f of None \<Rightarrow> [] | Some d \<Rightarrow> d) in
      \<lparr>committed = db, working = db, in_transaction = False, foreign_keys = False\<rparr>)"

definition commit :: "connection \<Rightarrow> connection" where
  "commit c = c\<lparr>committed := working c, in_transaction := False\<rparr>"

definition rollback :: "connection \<Rightarrow> connection" where
  "rollback c = c\<lparr>working := committed c, in_transaction := False\<rparr>"

definition autocommit :: "connection \<Rightarrow> connection" where
  "autocommit c = (if in_transaction c then c else c\<lparr>committed := working c\<rparr>)"

text \<open>\<^verbatim>\<open>PRAGMA foreign_keys = ON\<close> is a no-op inside a transaction.\<close>

definition pragma_foreign_keys_on :: "connection \<Rightarrow> connection" where
  "pragma_foreign_keys_on c = (if in_transaction c then c else c\<lparr>foreign_keys := True\<rparr>)"

definition drop_table_if_exists :: "connection \<Rightarrow> string \<Rightarrow> connection" where
  "drop_table_if_exists c name =
     autocommit (c\<lparr>working := filter (\<lambda>p. fst p \<noteq> name) (working c)\<rparr>)"

definition create_table :: "connection \<Rightarrow> string \<Rightarrow> table_schema \<Rightarrow> error + connection" where
  "create_table c name sch =
     (if name \<in> set (map fst (working c))
      then Inl (OperationalError (''table '' @ name @ '' already exists''))
      else Inr (autocommit (c\<lparr>working := working c @ [(name, \<lparr>tbl_schema = sch, tbl_rows = []\<rparr>)]\<rparr>)))"

definition select_count :: "connection \<Rightarrow> string \<Rightarrow> error + nat" where
  "select_count c name =
     (case map_of (working c) name of
        None \<Rightarrow> Inl (OperationalError (''no such table: '' @ name))
      | Some t \<Rightarrow> Inr (length (tbl_rows t)))"

subsection \<open>DataFrame.to_sql\<close>

text \<open>The rows of a frame as \<^verbatim>\<open>to_sql\<close> binds them: for each row the named values, adapted.\<close>

definition frame_rows :: "dataframe \<Rightarrow> (string \<times> sqlval) list list" where
  "frame_rows df = map (\<lambda>i. map (\<lambda>(c, s). (c, adapt (s ! i))) df) [0..<nrows df]"

text \<open>
  The table that \<^verbatim>\<open>to_sql\<close> creates when there is none of that name: one column per
  column of the frame, typed after its values, no constraint. The loader creates its
  five tables before it loads them, so it never comes to this.
\<close>

definition infer_type :: "series \<Rightarrow> coltype" where
  "infer_type s =
     (if s = [] then TEXT
      else if list_all (\<lambda>v. case v of CInt i \<Rightarrow> True | CBool b \<Rightarrow> True | _ \<Rightarrow> False) s then INTEGER
      else if list_all (\<lambda>v. case v of CFloat r \<Rightarrow> True | CNaN \<Rightarrow> True | _ \<Rightarrow> False) s then REAL
      else TEXT)"

definition infer_schema :: "dataframe \<Rightarrow> table_schema" where
  "infer_schema df =
     \<lparr>tbl_columns = map (\<lambda>(c, s). \<lparr>col_name = c, col_type = infer_type s, col_notnull = False\<rparr>) df,
      tbl_primary_key = None, tbl_checks = [], tbl_foreign_keys = []\<rparr>"

definition unknown_columns :: "database \<Rightarrow> string \<Rightarrow> dataframe \<Rightarrow> string list" where
  "unknown_columns db name df =
     (case map_of db name of
        None \<Rightarrow> []
      | Some t \<Rightarrow> filter (\<lambda>c. c \<notin> set (column_names (tbl_schema t))) (columns df))"

text \<open>
  \<^verbatim>\<open>df.to_sql(name, conn, if_exists="append", index=False)\<close>. A frame without rows
  is not inserted at all. Otherwise the rows go in one transaction, committed at the
  end; when the statement cannot be prepared (the frame has a column the table has not)
  or a row is refused, the transaction is rolled back and the error raised.
\<close>

definition to_sql :: "connection \<Rightarrow> string \<Rightarrow> dataframe \<Rightarrow> error option \<times> connection" where
  "to_sql c name df =
     (let c1 = (if name \<in> set (map fst (working c)) then c
                else commit (c\<lparr>working := working c @ [(name, \<lparr>tbl_schema = infer_schema df, tbl_rows = []\<rparr>)]\<rparr>))
      in if nrows df = 0 then (None, c1)
         else (case unknown_columns (working c1) name df of
                 col # rest \<Rightarrow>
                   (Some (OperationalError (''table '' @ name @ '' has no column named '' @ col)), rollback c1)
               | [] \<Rightarrow>
                   (case insert_rows (foreign_keys c1) (working c1) name (frame_rows df) of
                      Inl e \<Rightarrow> (Some e, rollback c1)
                    | Inr db \<Rightarrow> (None, commit (c1\<lparr>working := db, in_transaction := True\<rparr>)))))"

section \<open>The schema registry\<close>

definition col :: "string \<Rightarrow> coltype \<Rightarrow> bool \<Rightarrow> column_def" where
  "col n t nn = \<lparr>col_name = n, col_type = t, col_notnull = nn\<rparr>"

definition customers_schema :: table_schema where
  "customers_schema =
     \<lparr>tbl_columns =
        [col ''customer_id'' INTEGER False,
         col ''name'' TEXT True,
         col ''email'' TEXT True,
         col ''phone'' TEXT True,
         col ''created_at'' TEXT True,
         col ''city'' TEXT True,
         col ''state'' TEXT True],
      tbl_primary_key = Some ''customer_id'',
      tbl_checks = [],
      tbl_foreign_keys = []\<rparr>"

definition products_schema :: table_schema where
  "products_schema =
     \<lparr>tbl_columns =
        [col ''product_id'' TEXT False,
         col ''product_name'' TEXT True,
         col ''category'' TEXT True,
         col ''price'' REAL True,
         col ''in_stock'' INTEGER True,
         col ''added_at'' TEXT True],
      tbl_primary_key = Some ''product_id'',
      tbl_checks = [(''in_stock'', [SInt 0, SInt 1])],
      tbl_foreign_keys = []\<rparr>"

definition orders_schema :: table_schema where
  "orders_schema =
     \<lparr>tbl_columns =
        [col ''order_id'' TEXT False,
         col ''customer_id'' INTEGER True,
         col ''order_date'' TEXT True,
         col ''total_amount'' REAL True,
         col ''payment_method'' TEXT True,
         col ''order_status'' TEXT True],
      tbl_primary_key = Some ''order_id'',
      tbl_checks = [],
      tbl_foreign_keys = [(''customer_id'', ''customers'', ''customer_id'')]\<rparr>"

definition order_items_schema :: table_schema where
  "order_items_schema =
     \<lparr>tbl_columns =
        [col ''item_id'' TEXT False,
         col ''order_id'' TEXT True,
         col ''product_id'' TEXT True,
         col ''quantity'' INTEGER True,
         col ''item_price'' REAL True],
      tbl_primary_key = Some ''item_id'',
      tbl_checks = [],
      tbl_foreign_keys =
        [(''order_id'', ''orders'', ''order_id''),
         (''product_id'', ''products'', ''product_id'')]\<rparr>"

definition reviews_schema :: table_schema where
  "reviews_schema =
     \<lparr>tbl_columns =
        [col ''review_id'' TEXT False,
         col ''customer_id'' INTEGER True,
         col ''product_id'' TEXT True,
         col ''rating'' INTEGER True,
         col ''comment'' TEXT True,
         col ''review_date'' TEXT True],
      tbl_primary_key = Some ''review_id'',
      tbl_checks = [],
      tbl_foreign_keys =
        [(''customer_id'', ''customers'', ''customer_id''),
         (''product_id'', ''products'', ''product_id'')]\<rparr>"

text \<open>The dictionary \<^verbatim>\<open>TABLE_SCHEMAS\<close>, in the order a Python dictionary iterates: that of its literal.\<close>

definition TABLE_SCHEMAS :: "(string \<times> table_schema) list" where
  "TABLE_SCHEMAS =
     [(''customers'', customers_schema),
      (''products'', products_schema),
      (''orders'', orders_schema),
      (''order_items'', order_items_schema),
      (''reviews'', reviews_schema)]"

section \<open>main\<close>

text \<open>What a run can see and change: the CSV files, the database file, the console.\<close>

record world =
  files :: files
  db_file :: "database option"
  stdout :: "string list"

definition LOAD_ORDER :: "string list" where
  "LOAD_ORDER = [''customers'', ''products'', ''orders'', ''order_items'', ''reviews'']"

fun create_tables :: "connection \<Rightarrow> (string \<times> table_schema) list \<Rightarrow> error option \<times> connection" where
  "create_tables c [] = (None, c)"
| "create_tables c ((table, schema) # rest) =
     (case create_table (drop_table_if_exists c table) table schema of
        Inl e \<Rightarrow> (Some e, drop_table_if_exists c table)
      | Inr c' \<Rightarrow> create_tables c' rest)"

fun load_tables :: "files \<Rightarrow> heap \<Rightarrow> connection \<Rightarrow> string list \<Rightarrow> error option \<times> heap \<times> connection" where
  "load_tables fs h c [] = (None, h, c)"
| "load_tables fs h c (table # rest) =
     (case load_csv fs h table of
        (Inl e, h1) \<Rightarrow> (Some e, h1, c)
      | (Inr df, h1) \<Rightarrow>
          (case to_sql c table (h1 ! df) of
             (Some e, c1) \<Rightarrow> (Some e, h1, c1)
           | (None, c1) \<Rightarrow> load_tables fs h1 c1 rest))"

fun print_counts :: "connection \<Rightarrow> string list \<Rightarrow> string list \<Rightarrow> error option \<times> string list" where
  "print_counts c out [] = (None, out)"
| "print_counts c out (table # rest) =
     (case select_count c table of
        Inl e \<Rightarrow> (Some e, out)
      | Inr count \<Rightarrow> print_counts c (out @ [''- '' @ table @ '': '' @ str_nat count]) rest)"

text \<open>The body of \<^verbatim>\<open>with sqlite3.connect(DB_PATH) as conn\<close>.\<close>

definition body :: "files \<Rightarrow> connection \<Rightarrow> string list \<Rightarrow> error option \<times> connection \<times> string list" where
  "body fs conn out =
     (let c1 = pragma_foreign_keys_on conn in
      case create_tables c1 TABLE_SCHEMAS of
        (Some e, c2) \<Rightarrow> (Some e, c2, out)
      | (None, c2) \<Rightarrow>
          (case load_tables fs [] c2 LOAD_ORDER of
             (Some e, h, c3) \<Rightarrow> (Some e, c3, out)
           | (None, h, c3) \<Rightarrow>
               (case print_counts c3 (out @ [''Row counts:'']) (map fst TABLE_SCHEMAS) of
                  (e, out') \<Rightarrow> (e, c3, out'))))"

text \<open>
  \<^verbatim>\<open>DB_PATH.unlink(missing_ok=True)\<close> leaves no database file, so the connection opens
  an empty database. Leaving the \<^verbatim>\<open>with\<close> block commits when the body ended normally
  and rolls back when it raised; the exception goes on to the caller.
\<close>

definition main :: "world \<Rightarrow> error option \<times> world" where
  "main w =
     (let w0 = w\<lparr>db_file := None\<rparr>;
          conn = connect (db_file w0) in
      case body (files w0) conn (stdout w0) of
        (None, c, out) \<Rightarrow> (None, w0\<lparr>db_file := Some (committed (commit c)), stdout := out\<rparr>)
      | (Some e, c, out) \<Rightarrow> (Some e, w0\<lparr>db_file := Some (committed (rollback c)), stdout := out\<rparr>))"

section \<open>Notions used in the statements\<close>

text \<open>\<open>precedes a b xs\<close>: \<open>a\<close> occurs in \<open>xs\<close> before the first \<open>b\<close>.\<close>

definition precedes :: "'a \<Rightarrow> 'a \<Rightarrow> 'a list \<Rightarrow> bool" where
  "precedes a b xs = (a \<in> set (takeWhile (\<lambda>x. x \<noteq> b) xs))"

definition empty_table :: "table_schema \<Rightarrow> table" where
  "empty_table sch = \<lparr>tbl_schema = sch, tbl_rows = []\<rparr>"

text \<open>The database once the five tables are created.\<close>

definition fresh_database :: database where
  "fresh_database = map (\<lambda>(name, sch). (name, empty_table sch)) TABLE_SCHEMAS"

definition fresh_connection :: connection where
  "fresh_connection =
     \<lparr>committed = fresh_database, working = fresh_database,
      in_transaction = False, foreign_keys = True\<rparr>"

text \<open>What a run computes from the CSV files: how it ends, the database it leaves, the lines it prints.\<close>

definition run :: "files \<Rightarrow> error option \<times> database \<times> string list" where
  "run fs = (case body fs (connect None) [] of
      (None, c, out) \<Rightarrow> (None, committed (commit c), out)
    | (Some e, c, out) \<Rightarrow> (Some e, committed (rollback c), out))"




text \<open>No transaction is open and nothing is uncommitted.\<close>

definition clean :: "connection \<Rightarrow> bool" where
  "clean c = (committed c = working c \<and> \<not> in_transaction c)"


section \<open>Example data\<close>

definition products_frame :: dataframe where
  "products_frame =
     [(''product_id'', [CStr ''P1'', CStr ''P2'', CStr ''P3'']),
      (''in_stock'', [CStr '' false '', CBool True, CNaN])]"













section \<open>Properties of the normaliser\<close>

lemma normalize_series_cell:
  "normalize_series s =
     map (\<lambda>v. CInt (if py_upper (py_strip (py_str v)) = ''TRUE'' then 1 else 0)) s"
  by (simp add: normalize_series_def astype_int_def fillna_def map_dict_def str_upper_def
      str_strip_def astype_str_def TRUE_FALSE_def)

lemma filter_fst_distinct:
  "distinct (map fst df) \<Longrightarrow> (c, s) \<in> set df \<Longrightarrow> filter (\<lambda>p. fst p = c) df = [(c, s)]"
proof (induction df)
  case Nil
  then show ?case by simp
next
  case (Cons p df)
  show ?case
  proof (cases "p = (c, s)")
    case True
    with Cons.prems have "c \<notin> fst ` set df" by auto
    then have "filter (\<lambda>p. fst p = c) df = []" by (auto simp: filter_empty_conv)
    with True show ?thesis by simp
  next
    case False
    with Cons.prems have in_df: "(c, s) \<in> set df" by auto
    then have "c \<in> fst ` set df" by force
    with Cons.prems have "fst p \<noteq> c" by auto
    with Cons in_df show ?thesis by simp
  qed
qed

lemma getitem_present:
  "distinct (columns df) \<Longrightarrow> (c, s) \<in> set df \<Longrightarrow> getitem df c = Inr s"
  by (simp add: getitem_def columns_def filter_fst_distinct)

lemma getitem_absent:
  "c \<notin> set (columns df) \<Longrightarrow> getitem df c = Inl (KeyError c)"
proof -
  assume "c \<notin> set (columns df)"
  then have "filter (\<lambda>p. fst p = c) df = []"
    by (auto simp: columns_def filter_empty_conv)
  then show ?thesis by (simp add: getitem_def)
qed

lemma set_column_present:
  "c \<in> set (columns df) \<Longrightarrow> distinct (columns df) \<Longrightarrow>
   set_column df c s = map (\<lambda>p. if fst p = c then (fst p, s) else p) df"
proof (induction df)
  case Nil
  then show ?case by (simp add: columns_def)
next
  case (Cons p df)
  obtain c' old where p: "p = (c', old)" by (cases p)
  show ?case
  proof (cases "c' = c")
    case True
    with Cons.prems p have "c \<notin> fst ` set df" by (auto simp: columns_def)
    then have "map (\<lambda>p. if fst p = c then (fst p, s) else p) df = df"
      by (intro map_idI) force
    with True p show ?thesis by simp
  next
    case False
    with Cons p show ?thesis by (auto simp: columns_def)
  qed
qed


lemma normalize_booleans_present:
  assumes "(column, s) \<in> set (h ! df)" and "distinct (columns (h ! df))"
  shows "normalize_booleans h df column =
           (Inr (length h), h @ [map (\<lambda>p. if fst p = column then (fst p, normalize_series s) else p) (h ! df)])"
proof -
  from assms(1) have "column \<in> set (columns (h ! df))"
    by (force simp: columns_def)
  with assms show ?thesis
    by (simp add: normalize_booleans_def copy_def setitem_def getitem_present set_column_present)
qed




lemma filter_map_others:
  "filter (\<lambda>p. fst p \<noteq> c) (map (\<lambda>p. if fst p = c then (fst p, v) else p) xs) =
   filter (\<lambda>p. fst p \<noteq> c) xs"
  by (induction xs) auto

text \<open>
  C8. \<open>normalize_booleans\<close> returns a new object: the frames allocated before the call,
  the input among them, are what they were, and the new frame is the input with the
  values of the one column replaced: same columns in the same order, same rows.
\<close>

theorem normalize_booleans_frame:
  assumes "df < length h" and "distinct (columns (h ! df))" and "(column, s) \<in> set (h ! df)"
  shows "\<exists>df' h'. normalize_booleans h df column = (Inr df', h') \<and>
           df' \<noteq> df \<and> length h' = Suc (length h) \<and> take (length h) h' = h \<and> h' ! df = h ! df \<and>
           h' ! df' = map (\<lambda>p. if fst p = column then (column, normalize_series s) else p) (h ! df) \<and>
           filter (\<lambda>p. fst p \<noteq> column) (h' ! df') = filter (\<lambda>p. fst p \<noteq> column) (h ! df) \<and>
           columns (h' ! df') = columns (h ! df) \<and>
           length (normalize_series s) = length s \<and>
           nrows (h' ! df') = nrows (h ! df)"
proof -
  let ?new = "map (\<lambda>p. if fst p = column then (fst p, normalize_series s) else p) (h ! df)"
  have eq: "normalize_booleans h df column = (Inr (length h), h @ [?new])"
    using assms by (simp add: normalize_booleans_present)
  have new: "?new = map (\<lambda>p. if fst p = column then (column, normalize_series s) else p) (h ! df)"
    by (rule map_cong) auto
  have cols: "columns ?new = columns (h ! df)"
    by (simp add: columns_def comp_def if_distrib cong: if_cong)
  have others: "filter (\<lambda>p. fst p \<noteq> column) ?new = filter (\<lambda>p. fst p \<noteq> column) (h ! df)"
    by (rule filter_map_others)
  have len: "length (normalize_series s) = length s"
    by (simp add: normalize_series_cell)
  have first: "(column, t) \<in> set (h ! df) \<Longrightarrow> t = s" for t
    using assms(2,3) by (metis columns_def eq_key_imp_eq_value)
  have rows: "nrows ?new = nrows (h ! df)"
  proof (cases "h ! df")
    case Nil
    then show ?thesis by (simp add: nrows_def)
  next
    case (Cons p rest)
    obtain c t where p: "p = (c, t)" by (cases p)
    show ?thesis
    proof (cases "c = column")
      case True
      with Cons p first have "t = s" by simp
      with Cons p True len show ?thesis by (simp add: nrows_def)
    next
      case False
      with Cons p show ?thesis by (simp add: nrows_def)
    qed
  qed
  from assms(1) have old: "(h @ [?new]) ! df = h ! df"
    by (simp add: nth_append)
  show ?thesis
    using eq new cols others len rows old assms(1) by (intro exI[of _ "length h"] exI[of _ "h @ [?new]"]) simp
qed

theorem normalize_booleans_frame_witness:
  "\<exists>df' h'. normalize_booleans [products_frame] 0 ''in_stock'' = (Inr df', h') \<and>
     df' \<noteq> 0 \<and> h' ! 0 = products_frame \<and>
     h' ! df' = [(''product_id'', [CStr ''P1'', CStr ''P2'', CStr ''P3'']),
                 (''in_stock'', [CInt 0, CInt 1, CInt 0])] \<and>
     nrows (h' ! df') = 3"
proof -
  have ev: "normalize_series [CStr '' false '', CBool True, CNaN] = [CInt 0, CInt 1, CInt 0]"
    by code_simp
  have pre: "0 < length [products_frame]" "distinct (columns ([products_frame] ! 0))"
    "(''in_stock'', [CStr '' false '', CBool True, CNaN]) \<in> set ([products_frame] ! 0)"
    by (simp_all add: products_frame_def columns_def)
  have n: "nrows products_frame = 3"
    by (simp add: products_frame_def nrows_def)
  show ?thesis
    using normalize_booleans_frame [OF pre] unfolding ev
    by (auto simp: products_frame_def nrows_def)
qed

text \<open>
  C10. When the frame has no column of that name, \<open>normalize_booleans\<close> raises
  \<^verbatim>\<open>KeyError\<close> instead of returning a frame, and the input frame is unchanged.
\<close>

theorem normalize_booleans_missing_column:
  assumes "df < length h" and "column \<notin> set (columns (h ! df))"
  shows "fst (normalize_booleans h df column) = Inl (KeyError column) \<and>
         snd (normalize_booleans h df column) ! df = h ! df"
  using assms by (simp add: normalize_booleans_def copy_def getitem_absent nth_append)

theorem normalize_booleans_missing_column_witness:
  "fst (normalize_booleans [products_frame] 0 ''stock'') = Inl (KeyError ''stock'') \<and>
   snd (normalize_booleans [products_frame] 0 ''stock'') ! 0 = products_frame"
proof -
  have pre: "0 < length [products_frame]" "''stock'' \<notin> set (columns ([products_frame] ! 0))"
    by (simp_all add: products_frame_def columns_def)
  show ?thesis
    using normalize_booleans_missing_column [OF pre] by simp
qed

section \<open>Properties of the loader\<close>








section \<open>Properties of the registry and of a run\<close>

lemma create_tables_fresh:
  "create_tables (pragma_foreign_keys_on (connect None)) TABLE_SCHEMAS = (None, fresh_connection)"
  by (simp add: TABLE_SCHEMAS_def fresh_connection_def fresh_database_def empty_table_def
      pragma_foreign_keys_on_def connect_def create_table_def drop_table_if_exists_def autocommit_def)

text \<open>
  C9. The registry iterates in the order customers, products, orders, order_items,
  reviews; the tables are created in that order and loaded in that order; and every
  table that a foreign key references comes before the table that declares the key.
\<close>

theorem table_order:
  "map fst TABLE_SCHEMAS = [''customers'', ''products'', ''orders'', ''order_items'', ''reviews''] \<and>
   LOAD_ORDER = [''customers'', ''products'', ''orders'', ''order_items'', ''reviews''] \<and>
   map fst (working (snd (create_tables (pragma_foreign_keys_on (connect None)) TABLE_SCHEMAS))) =
     [''customers'', ''products'', ''orders'', ''order_items'', ''reviews''] \<and>
   concat (map (\<lambda>(name, sch). map (\<lambda>(c, parent, pc). (name, parent)) (tbl_foreign_keys sch)) TABLE_SCHEMAS) =
     [(''orders'', ''customers''), (''order_items'', ''orders''), (''order_items'', ''products''),
      (''reviews'', ''customers''), (''reviews'', ''products'')] \<and>
   list_all (\<lambda>(name, sch). list_all (\<lambda>(c, parent, pc).
       precedes parent name (map fst TABLE_SCHEMAS) \<and> precedes parent name LOAD_ORDER) (tbl_foreign_keys sch))
     TABLE_SCHEMAS"
  by (simp add: create_tables_fresh fresh_connection_def fresh_database_def)
     (simp add: TABLE_SCHEMAS_def LOAD_ORDER_def precedes_def customers_schema_def
      products_schema_def orders_schema_def order_items_schema_def reviews_schema_def)

section \<open>Insertion\<close>














section \<open>Loading\<close>

lemma rollback_clean: "clean c \<Longrightarrow> rollback c = c"
  by (cases c) (simp add: clean_def rollback_def)

lemma to_sql_failure:
  assumes "to_sql c name df = (Some e, c')" and "map_of (working c) name = Some t" and "clean c"
  shows "c' = c"
proof -
  from assms(2) have "name \<in> set (map fst (working c))"
    by (auto dest: map_of_SomeD intro: rev_image_eqI)
  with assms(1) have "c' = rollback c"
    by (auto simp: to_sql_def Let_def split: if_splits list.splits sum.splits)
  with assms(3) show ?thesis by (simp add: rollback_clean)
qed








lemma print_counts_out:
  "print_counts c out ts =
     (fst (print_counts c [] ts), out @ snd (print_counts c [] ts))"
proof (induction ts arbitrary: out)
  case Nil
  then show ?case by simp
next
  case (Cons t ts)
  show ?case
  proof (cases "select_count c t")
    case (Inl e)
    then show ?thesis by simp
  next
    case (Inr n)
    have "print_counts c (out @ [''- '' @ t @ '': '' @ str_nat n]) ts =
        (fst (print_counts c [] ts), (out @ [''- '' @ t @ '': '' @ str_nat n]) @ snd (print_counts c [] ts))"
      by (rule Cons.IH)
    moreover have "print_counts c ([] @ [''- '' @ t @ '': '' @ str_nat n]) ts =
        (fst (print_counts c [] ts), ([] @ [''- '' @ t @ '': '' @ str_nat n]) @ snd (print_counts c [] ts))"
      by (rule Cons.IH)
    ultimately show ?thesis using Inr by simp
  qed
qed

lemma body_out:
  "body fs conn out =
     (fst (body fs conn []), fst (snd (body fs conn [])), out @ snd (snd (body fs conn [])))"
proof -
  have p: "print_counts c (out @ [''Row counts:'']) ts =
      (fst (print_counts c [''Row counts:''] ts), out @ snd (print_counts c [''Row counts:''] ts))" for c ts
    using print_counts_out [of c "out @ [''Row counts:'']" ts] print_counts_out [of c "[''Row counts:'']" ts]
    by simp
  show ?thesis
    by (simp add: body_def p split: prod.splits option.splits)
qed

lemma main_run:
  "main w = (fst (run (files w)),
     w\<lparr>db_file := Some (fst (snd (run (files w)))), stdout := stdout w @ snd (snd (run (files w)))\<rparr>)"
  using body_out [of "files w" "connect None" "stdout w"]
  by (simp add: main_def run_def split: prod.splits option.splits)

text \<open>
  C6. A run starts by deleting the database file, so what it reports, how it ends and
  the database it leaves depend on the CSV files alone: a second run over the same CSV
  files ends as the first did, prints the same lines and leaves the same database.
\<close>

theorem main_twice:
  "fst (main (snd (main w))) = fst (main w) \<and>
   drop (length (stdout (snd (main w)))) (stdout (snd (main (snd (main w))))) =
     drop (length (stdout w)) (stdout (snd (main w))) \<and>
   db_file (snd (main (snd (main w)))) = db_file (snd (main w)) \<and>
   files (snd (main w)) = files w \<and>
   main (w\<lparr>db_file := d\<rparr>) = (fst (main w), snd (main w))"
  by (simp add: main_run)

section \<open>The report of a successful run\<close>











section \<open>A missing file\<close>



section \<open>The stored in_stock column\<close>













section \<open>Referential integrity\<close>























end
